theory Spec2Isabelle
  imports Main "HOL-Library.Sublist"
begin

section \<open>The transit key handlers of \<^verbatim>\<open>builtin/logical/transit/path_keys.go\<close>\<close>

text \<open>
  The file holds the request handlers of the named-key paths. Three of them are embedded
  here: \<^verbatim>\<open>pathKeysList\<close>, \<^verbatim>\<open>pathPolicyWrite\<close> (create-or-get) and \<^verbatim>\<open>pathPolicyRead\<close>.
  The handlers are thin: they read the request's fields, validate them, and call the lock
  manager (\<^verbatim>\<open>b.lm\<close>, package keysutil), the storage view of the request and the policy
  object. None of those collaborators is part of the file. They are taken as parameters:
  a record of state transformers over a collaborator state \<open>'s\<close> about which nothing is
  assumed, so that every statement about a handler holds for every lock manager, storage
  and policy implementation.
\<close>

subsection \<open>Errors and responses\<close>

text \<open>
  A Go \<^verbatim>\<open>error\<close> value; \<^verbatim>\<open>nil\<close> is \<open>None\<close> of \<open>go_error option\<close>.
  \<open>ErrInvalidRequest\<close> is \<^verbatim>\<open>logical.ErrInvalidRequest\<close>, \<open>Errorf\<close> an error made by
  \<^verbatim>\<open>fmt.Errorf\<close>; a collaborator may return either.
\<close>

datatype go_error = ErrInvalidRequest | Errorf string

text \<open>The \<^verbatim>\<open>map[string]interface{}\<close> that \<^verbatim>\<open>p.Map\<close> produces; its content is opaque to the handlers.\<close>

type_synonym resp_data = "(string \<times> string) list"

text \<open>
  A \<^verbatim>\<open>*logical.Response\<close>; \<^verbatim>\<open>nil\<close> is \<open>None\<close> of \<open>response option\<close>. The builders
  \<^verbatim>\<open>logical.ErrorResponse(text)\<close> and \<^verbatim>\<open>logical.ListResponse(keys)\<close> belong to package
  logical and are kept as constructors; \<open>Response data warnings\<close> is the struct literal
  \<^verbatim>\<open>&logical.Response{Data: data}\<close> together with the warnings added to it.
\<close>

datatype response =
    ErrorResponse string
  | ListResponse "string list"
  | Response (Data: "resp_data option") (Warnings: "string list")

text \<open>\<^verbatim>\<open>resp.AddWarning(w)\<close>, which the handlers call on a struct literal only.\<close>

fun AddWarning :: "response \<Rightarrow> string \<Rightarrow> response" where
  "AddWarning (Response data ws) w = Response data (ws @ [w])"

subsection \<open>Request fields\<close>

datatype field_value = VString string | VBool bool

datatype FieldType = TypeString | TypeBool

record FieldSchema =
  Type :: FieldType
  Default :: "field_value option"

text \<open>The \<^verbatim>\<open>Fields\<close> of \<^verbatim>\<open>pathKeys\<close>: only \<^verbatim>\<open>type\<close> declares a default.\<close>

definition pathKeys_Fields :: "(string \<times> FieldSchema) list" where
  "pathKeys_Fields =
     [(''name'', \<lparr>Type = TypeString, Default = None\<rparr>),
      (''type'', \<lparr>Type = TypeString, Default = Some (VString ''aes256-gcm96'')\<rparr>),
      (''derived'', \<lparr>Type = TypeBool, Default = None\<rparr>),
      (''convergent_encryption'', \<lparr>Type = TypeBool, Default = None\<rparr>),
      (''exportable'', \<lparr>Type = TypeBool, Default = None\<rparr>),
      (''context'', \<lparr>Type = TypeString, Default = None\<rparr>)]"

text \<open>
  The \<^verbatim>\<open>*framework.FieldData\<close> of a request: the values the caller supplied, by field
  name. A value that \<^verbatim>\<open>d.Get\<close> returns has the type of the field's schema, so the type
  assertions \<^verbatim>\<open>.(string)\<close> and \<^verbatim>\<open>.(bool)\<close> of the handlers cannot fail; the raw values
  are therefore kept by type.
\<close>

record FieldData =
  Raw_string :: "string \<rightharpoonup> string"
  Raw_bool :: "string \<rightharpoonup> bool"

text \<open>
  Modelled from the spec: \<^verbatim>\<open>framework.FieldData.Get\<close> is not among the sources, and the
  spec leaves the parsing of a request to the routing layer. The lookup is taken as the
  schema of \<^verbatim>\<open>pathKeys\<close> documents it (\<^verbatim>\<open>Defaults to "aes256-gcm96"\<close>): a supplied value is
  returned, a field that was not supplied yields the \<^verbatim>\<open>Default\<close> of its schema, and the
  zero value of its type when the schema declares none. \<open>Get_string d k\<close> is
  \<^verbatim>\<open>d.Get(k).(string)\<close>, \<open>Get_bool d k\<close> is \<^verbatim>\<open>d.Get(k).(bool)\<close>.
\<close>

definition Get_string :: "FieldData \<Rightarrow> string \<Rightarrow> string" where
  "Get_string d k =
     (case Raw_string d k of
        Some v \<Rightarrow> v
      | None \<Rightarrow>
          (case map_of pathKeys_Fields k of
             Some schema \<Rightarrow> (case Default schema of Some (VString v) \<Rightarrow> v | _ \<Rightarrow> [])
           | None \<Rightarrow> []))"

definition Get_bool :: "FieldData \<Rightarrow> string \<Rightarrow> bool" where
  "Get_bool d k =
     (case Raw_bool d k of
        Some v \<Rightarrow> v
      | None \<Rightarrow>
          (case map_of pathKeys_Fields k of
             Some schema \<Rightarrow> (case Default schema of Some (VBool v) \<Rightarrow> v | _ \<Rightarrow> False)
           | None \<Rightarrow> False))"

subsection \<open>Collaborators\<close>

text \<open>
  Pointers and interface values are handles: \<^verbatim>\<open>*keysutil.Policy\<close>, the \<^verbatim>\<open>*sync.RWMutex\<close>
  that guards it, and the \<^verbatim>\<open>logical.Storage\<close> of a request. A context is a \<^verbatim>\<open>[]byte\<close>;
  \<open>None\<close> is the nil slice.
\<close>

type_synonym policy_ref = nat
type_synonym lock_ref = nat
type_synonym storage_ref = nat
type_synonym bytes = "char list"

datatype KeyType =
    KeyType_AES256_GCM96
  | KeyType_ECDSA_P256
  | KeyType_ED25519
  | KeyType_RSA2048
  | KeyType_RSA4096

text \<open>The part of \<^verbatim>\<open>*logical.Request\<close> that the handlers read.\<close>

record Request =
  Storage :: storage_ref

record PolicyRequest =
  Storage :: storage_ref
  Name :: string
  Derived :: bool
  Convergent :: bool
  Exportable :: bool
  KeyType :: KeyType

text \<open>
  The operations the handlers call, each a function of the collaborators' state that
  returns the Go results and the state afterwards. \<open>base64_DecodeString\<close> is
  \<^verbatim>\<open>base64.StdEncoding.DecodeString\<close> of the Go library, a pure function.
\<close>

record 's backend =
  lm_GetPolicyUpsert ::
    "PolicyRequest \<Rightarrow> 's \<Rightarrow> (policy_ref option \<times> lock_ref option \<times> bool \<times> go_error option) \<times> 's"
  lm_GetPolicyShared ::
    "storage_ref \<Rightarrow> string \<Rightarrow> 's \<Rightarrow> (policy_ref option \<times> lock_ref option \<times> go_error option) \<times> 's"
  lock_RUnlock :: "lock_ref \<Rightarrow> 's \<Rightarrow> 's"
  Storage_List :: "storage_ref \<Rightarrow> string \<Rightarrow> 's \<Rightarrow> (string list \<times> go_error option) \<times> 's"
  Policy_Map :: "policy_ref \<Rightarrow> bytes option \<Rightarrow> 's \<Rightarrow> (resp_data \<times> go_error option) \<times> 's"
  base64_DecodeString :: "string \<Rightarrow> bytes \<times> go_error option"

text \<open>
  Every call of a collaborator is recorded with its arguments and results, in the order
  of the calls, next to the collaborators' state.
\<close>

datatype event =
    Ev_GetPolicyUpsert PolicyRequest "policy_ref option" "lock_ref option" bool "go_error option"
  | Ev_GetPolicyShared storage_ref string "policy_ref option" "lock_ref option" "go_error option"
  | Ev_RUnlock lock_ref
  | Ev_List storage_ref string "string list" "go_error option"
  | Ev_Map policy_ref "bytes option" resp_data "go_error option"

record 's world =
  collab :: 's
  trace :: "event list"

definition call_GetPolicyUpsert ::
  "'s backend \<Rightarrow> PolicyRequest \<Rightarrow> 's world \<Rightarrow>
     (policy_ref option \<times> lock_ref option \<times> bool \<times> go_error option) \<times> 's world" where
  "call_GetPolicyUpsert b polReq w =
     (case lm_GetPolicyUpsert b polReq (collab w) of
        ((p, lock, upserted, err), s) \<Rightarrow>
          ((p, lock, upserted, err),
           \<lparr>collab = s, trace = trace w @ [Ev_GetPolicyUpsert polReq p lock upserted err]\<rparr>))"

definition call_GetPolicyShared ::
  "'s backend \<Rightarrow> storage_ref \<Rightarrow> string \<Rightarrow> 's world \<Rightarrow>
     (policy_ref option \<times> lock_ref option \<times> go_error option) \<times> 's world" where
  "call_GetPolicyShared b storage name w =
     (case lm_GetPolicyShared b storage name (collab w) of
        ((p, lock, err), s) \<Rightarrow>
          ((p, lock, err),
           \<lparr>collab = s, trace = trace w @ [Ev_GetPolicyShared storage name p lock err]\<rparr>))"

definition call_RUnlock :: "'s backend \<Rightarrow> lock_ref \<Rightarrow> 's world \<Rightarrow> 's world" where
  "call_RUnlock b lock w =
     \<lparr>collab = lock_RUnlock b lock (collab w), trace = trace w @ [Ev_RUnlock lock]\<rparr>"

definition call_List ::
  "'s backend \<Rightarrow> storage_ref \<Rightarrow> string \<Rightarrow> 's world \<Rightarrow> (string list \<times> go_error option) \<times> 's world" where
  "call_List b storage pfx w =
     (case Storage_List b storage pfx (collab w) of
        ((entries, err), s) \<Rightarrow>
          ((entries, err), \<lparr>collab = s, trace = trace w @ [Ev_List storage pfx entries err]\<rparr>))"

definition call_Map ::
  "'s backend \<Rightarrow> policy_ref \<Rightarrow> bytes option \<Rightarrow> 's world \<Rightarrow> (resp_data \<times> go_error option) \<times> 's world" where
  "call_Map b p context w =
     (case Policy_Map b p context (collab w) of
        ((respData, err), s) \<Rightarrow>
          ((respData, err), \<lparr>collab = s, trace = trace w @ [Ev_Map p context respData err]\<rparr>))"

text \<open>
  \<^verbatim>\<open>if lock != nil { defer lock.RUnlock() }\<close>: the deferred call runs when the handler
  returns, after everything else the handler did.
\<close>

definition deferred_RUnlock :: "'s backend \<Rightarrow> lock_ref option \<Rightarrow> 's world \<Rightarrow> 's world" where
  "deferred_RUnlock b lock w = (case lock of None \<Rightarrow> w | Some l \<Rightarrow> call_RUnlock b l w)"

subsection \<open>\<^verbatim>\<open>pathKeysList\<close>\<close>

definition pathKeysList ::
  "'s backend \<Rightarrow> Request \<Rightarrow> FieldData \<Rightarrow> 's world \<Rightarrow> (response option \<times> go_error option) \<times> 's world" where
  "pathKeysList b req d w =
     (case call_List b (Request.Storage req) ''policy/'' w of
        ((entries, err), w1) \<Rightarrow>
          if err \<noteq> None then ((None, err), w1)
          else ((Some (ListResponse entries), None), w1))"

subsection \<open>\<^verbatim>\<open>pathPolicyWrite\<close>\<close>

text \<open>The \<^verbatim>\<open>switch keyType\<close>: the key type it assigns, \<open>None\<close> for the \<^verbatim>\<open>default\<close> case.\<close>

definition switch_keyType :: "string \<Rightarrow> KeyType option" where
  "switch_keyType keyType =
     (if keyType = ''aes256-gcm96'' then Some KeyType_AES256_GCM96
      else if keyType = ''ecdsa-p256'' then Some KeyType_ECDSA_P256
      else if keyType = ''ed25519'' then Some KeyType_ED25519
      else if keyType = ''rsa-2048'' then Some KeyType_RSA2048
      else if keyType = ''rsa-4096'' then Some KeyType_RSA4096
      else None)"

text \<open>
  What the handler returns once \<^verbatim>\<open>GetPolicyUpsert\<close> has answered (lines 142 to 154). The
  local \<^verbatim>\<open>resp\<close> receives the warning, and the \<^verbatim>\<open>return\<close> statement is \<^verbatim>\<open>return nil, nil\<close>.
\<close>

definition pathPolicyWrite_return ::
  "string \<Rightarrow> policy_ref option \<Rightarrow> bool \<Rightarrow> go_error option \<Rightarrow> response option \<times> go_error option" where
  "pathPolicyWrite_return name p upserted err =
     (if err \<noteq> None then (None, err)
      else if p = None then (None, Some (Errorf ''error generating key: returned policy was nil''))
      else
        let resp = Response None [];
            resp = (if \<not> upserted then AddWarning resp (''key '' @ name @ '' already existed'') else resp)
        in (None, None))"

text \<open>
  The handler. The source builds \<^verbatim>\<open>polReq\<close> before the \<^verbatim>\<open>switch\<close> and the matching case
  assigns \<^verbatim>\<open>polReq.KeyType\<close>; the \<^verbatim>\<open>default\<close> case returns before \<^verbatim>\<open>polReq\<close> is used, so the
  record is written here where the key type is known.
\<close>

definition pathPolicyWrite ::
  "'s backend \<Rightarrow> Request \<Rightarrow> FieldData \<Rightarrow> 's world \<Rightarrow> (response option \<times> go_error option) \<times> 's world" where
  "pathPolicyWrite b req d w =
     (let name = Get_string d ''name'';
          derived = Get_bool d ''derived'';
          convergent = Get_bool d ''convergent_encryption'';
          keyType = Get_string d ''type'';
          exportable = Get_bool d ''exportable''
      in
        if \<not> derived \<and> convergent then
          ((Some (ErrorResponse ''convergent encryption requires derivation to be enabled''), None), w)
        else
          (case switch_keyType keyType of
             None \<Rightarrow>
               ((Some (ErrorResponse (''unknown key type '' @ keyType)), Some ErrInvalidRequest), w)
           | Some kt \<Rightarrow>
               (case call_GetPolicyUpsert b
                       \<lparr>Storage = Request.Storage req, Name = name, Derived = derived,
                        Convergent = convergent, Exportable = exportable, KeyType = kt\<rparr> w of
                  ((p, lock, upserted, err), w1) \<Rightarrow>
                    (pathPolicyWrite_return name p upserted err, deferred_RUnlock b lock w1))))"

subsection \<open>\<^verbatim>\<open>pathPolicyRead\<close>\<close>

text \<open>Lines 181 to 188: \<^verbatim>\<open>p.Map(context)\<close> and the response built from its result.\<close>

definition pathPolicyRead_map ::
  "'s backend \<Rightarrow> policy_ref \<Rightarrow> bytes option \<Rightarrow> 's world \<Rightarrow>
     (response option \<times> go_error option) \<times> 's world" where
  "pathPolicyRead_map b p context w =
     (case call_Map b p context w of
        ((respData, err), w1) \<Rightarrow>
          if err \<noteq> None then ((None, err), w1)
          else ((Some (Response (Some respData) []), None), w1))"

text \<open>Lines 165 to 188: what the handler does once \<^verbatim>\<open>GetPolicyShared\<close> has answered.\<close>

definition pathPolicyRead_body ::
  "'s backend \<Rightarrow> FieldData \<Rightarrow> policy_ref option \<Rightarrow> go_error option \<Rightarrow> 's world \<Rightarrow>
     (response option \<times> go_error option) \<times> 's world" where
  "pathPolicyRead_body b d p err w =
     (if err \<noteq> None then ((None, err), w)
      else
        (case p of
           None \<Rightarrow> ((None, None), w)
         | Some pol \<Rightarrow>
             let contextRaw = Get_string d ''context'' in
               if length contextRaw \<noteq> 0 then
                 (case base64_DecodeString b contextRaw of
                    (context, err) \<Rightarrow>
                      if err \<noteq> None then
                        ((Some (ErrorResponse ''failed to base64-decode context''),
                          Some ErrInvalidRequest), w)
                      else pathPolicyRead_map b pol (Some context) w)
               else pathPolicyRead_map b pol None w))"

definition pathPolicyRead ::
  "'s backend \<Rightarrow> Request \<Rightarrow> FieldData \<Rightarrow> 's world \<Rightarrow> (response option \<times> go_error option) \<times> 's world" where
  "pathPolicyRead b req d w =
     (let name = Get_string d ''name'' in
        (case call_GetPolicyShared b (Request.Storage req) name w of
           ((p, lock, err), w1) \<Rightarrow>
             (case pathPolicyRead_body b d p err w1 of
                (res, w2) \<Rightarrow> (res, deferred_RUnlock b lock w2))))"

subsection \<open>The lock discipline of a sequence of calls\<close>

text \<open>
  \<open>lock_discipline held evs\<close> runs through the calls \<open>evs\<close> with the shared locks \<open>held\<close>
  at their start: a lock that the lock manager returns is acquired, \<^verbatim>\<open>RUnlock\<close> is only
  called on a lock that is held and gives it up, and no lock is held at the end.
\<close>

fun lock_discipline :: "lock_ref list \<Rightarrow> event list \<Rightarrow> bool" where
  "lock_discipline held [] = (held = [])"
| "lock_discipline held (Ev_GetPolicyUpsert polReq p lock upserted err # evs) =
     lock_discipline (case lock of None \<Rightarrow> held | Some l \<Rightarrow> l # held) evs"
| "lock_discipline held (Ev_GetPolicyShared storage name p lock err # evs) =
     lock_discipline (case lock of None \<Rightarrow> held | Some l \<Rightarrow> l # held) evs"
| "lock_discipline held (Ev_RUnlock l # evs) =
     (l \<in> set held \<and> lock_discipline (remove1 l held) evs)"
| "lock_discipline held (Ev_List storage pfx entries err # evs) = lock_discipline held evs"
| "lock_discipline held (Ev_Map p context respData err # evs) = lock_discipline held evs"

text \<open>The locks a sequence of calls acquires, and those it releases, in order.\<close>

fun acquired :: "event list \<Rightarrow> lock_ref list" where
  "acquired [] = []"
| "acquired (Ev_GetPolicyUpsert polReq p lock upserted err # evs) =
     (case lock of None \<Rightarrow> [] | Some l \<Rightarrow> [l]) @ acquired evs"
| "acquired (Ev_GetPolicyShared storage name p lock err # evs) =
     (case lock of None \<Rightarrow> [] | Some l \<Rightarrow> [l]) @ acquired evs"
| "acquired (ev # evs) = acquired evs"

fun released :: "event list \<Rightarrow> lock_ref list" where
  "released [] = []"
| "released (Ev_RUnlock l # evs) = l # released evs"
| "released (ev # evs) = released evs"

subsection \<open>A reference implementation of the collaborators\<close>

text \<open>
  The standard base64 alphabet with padding, as \<^verbatim>\<open>base64.StdEncoding\<close> decodes it:
  groups of four characters, \<^verbatim>\<open>=\<close> only at the end of the last group, carriage returns
  and line feeds skipped.
\<close>

definition b64_value :: "char \<Rightarrow> nat option" where
  "b64_value c =
     (let n = (of_char c :: nat) in
        if 65 \<le> n \<and> n \<le> 90 then Some (n - 65)
        else if 97 \<le> n \<and> n \<le> 122 then Some (n - 71)
        else if 48 \<le> n \<and> n \<le> 57 then Some (n + 4)
        else if n = 43 then Some 62
        else if n = 47 then Some 63
        else None)"

definition b64_group :: "char list \<Rightarrow> nat \<Rightarrow> bytes option" where
  "b64_group cs n =
     (if list_all (\<lambda>c. b64_value c \<noteq> None) cs then
        let x = foldl (\<lambda>acc c. acc * 64 + the (b64_value c)) 0 cs * 64 ^ (4 - length cs)
        in Some (take n [char_of (x div 65536), char_of (x div 256), char_of x])
      else None)"

fun b64_groups :: "char list \<Rightarrow> bytes option" where
  "b64_groups [] = Some []"
| "b64_groups [a, b, c, d] =
     (if c = CHR ''='' \<and> d = CHR ''='' then b64_group [a, b] 1
      else if d = CHR ''='' then b64_group [a, b, c] 2
      else b64_group [a, b, c, d] 3)"
| "b64_groups (a # b # c # d # rest) =
     (case b64_group [a, b, c, d] 3 of
        None \<Rightarrow> None
      | Some bs \<Rightarrow> (case b64_groups rest of None \<Rightarrow> None | Some bs' \<Rightarrow> Some (bs @ bs')))"
| "b64_groups cs = None"

definition StdEncoding_DecodeString :: "string \<Rightarrow> bytes \<times> go_error option" where
  "StdEncoding_DecodeString s =
     (case b64_groups (filter (\<lambda>c. c \<noteq> CHR 0x0D \<and> c \<noteq> CHR 0x0A) s) of
        None \<Rightarrow> ([], Some (Errorf ''illegal base64 data''))
      | Some bs \<Rightarrow> (bs, None))"

text \<open>
  Modelled from the spec: the lock manager, the storage and the policy object of package
  keysutil are not among the sources. This is the policy store of section 4.3, without
  storage failures, for running the handlers on concrete requests: the policies are kept
  in the order of their creation, with the fields of the request that created them;
  policy \<open>i\<close> is guarded by lock \<open>i\<close>, and \<open>readers\<close> counts the shared holders of each
  lock. Create-or-get on a known name returns the existing policy under a shared lock
  with \<^verbatim>\<open>wasCreated = false\<close>; on a new name it stores a policy and returns it under a
  shared lock with \<^verbatim>\<open>wasCreated = true\<close>; a read of an unknown name returns nothing; the
  listing is that of the stored names.
\<close>

record store =
  policies :: "PolicyRequest list"
  readers :: "nat list"

fun find_policy :: "string \<Rightarrow> PolicyRequest list \<Rightarrow> nat option" where
  "find_policy name [] = None"
| "find_policy name (p # ps) =
     (if Name p = name then Some 0
      else (case find_policy name ps of None \<Rightarrow> None | Some i \<Rightarrow> Some (Suc i)))"

definition store_RLock :: "lock_ref \<Rightarrow> store \<Rightarrow> store" where
  "store_RLock l s = s\<lparr>readers := (readers s)[l := Suc (readers s ! l)]\<rparr>"

definition store_RUnlock :: "lock_ref \<Rightarrow> store \<Rightarrow> store" where
  "store_RUnlock l s = s\<lparr>readers := (readers s)[l := readers s ! l - 1]\<rparr>"

definition store_GetPolicyUpsert ::
  "PolicyRequest \<Rightarrow> store \<Rightarrow> (policy_ref option \<times> lock_ref option \<times> bool \<times> go_error option) \<times> store" where
  "store_GetPolicyUpsert polReq s =
     (case find_policy (Name polReq) (policies s) of
        Some i \<Rightarrow> ((Some i, Some i, False, None), store_RLock i s)
      | None \<Rightarrow>
          let i = length (policies s) in
            ((Some i, Some i, True, None),
             \<lparr>policies = policies s @ [polReq], readers = readers s @ [1]\<rparr>))"

definition store_GetPolicyShared ::
  "storage_ref \<Rightarrow> string \<Rightarrow> store \<Rightarrow> (policy_ref option \<times> lock_ref option \<times> go_error option) \<times> store" where
  "store_GetPolicyShared storage name s =
     (case find_policy name (policies s) of
        Some i \<Rightarrow> ((Some i, Some i, None), store_RLock i s)
      | None \<Rightarrow> ((None, None, None), s))"

definition store_List :: "storage_ref \<Rightarrow> string \<Rightarrow> store \<Rightarrow> (string list \<times> go_error option) \<times> store" where
  "store_List storage pfx s =
     ((if pfx = ''policy/'' then map Name (policies s) else [], None), s)"

definition store_Map :: "policy_ref \<Rightarrow> bytes option \<Rightarrow> store \<Rightarrow> (resp_data \<times> go_error option) \<times> store" where
  "store_Map p context s =
     (case drop p (policies s) of
        [] \<Rightarrow> (([], Some (Errorf ''no such policy'')), s)
      | pol # ps \<Rightarrow>
          (([(''name'', Name pol),
             (''derived'', if Derived pol then ''true'' else ''false''),
             (''convergent_encryption'', if Convergent pol then ''true'' else ''false''),
             (''exportable'', if Exportable pol then ''true'' else ''false'')], None), s))"

definition store_backend :: "store backend" where
  "store_backend =
     \<lparr>lm_GetPolicyUpsert = store_GetPolicyUpsert,
      lm_GetPolicyShared = store_GetPolicyShared,
      lock_RUnlock = store_RUnlock,
      Storage_List = store_List,
      Policy_Map = store_Map,
      base64_DecodeString = StdEncoding_DecodeString\<rparr>"

definition empty_world :: "store world" where
  "empty_world = \<lparr>collab = \<lparr>policies = [], readers = []\<rparr>, trace = []\<rparr>"

text \<open>
  The request of the spec's example:
  \<^verbatim>\<open>CreateOrGet("orders-key", type="aes256-gcm96", derived=true, convergent=true, exportable=false)\<close>.
\<close>

definition orders_key :: FieldData where
  "orders_key =
     \<lparr>Raw_string = [''name'' \<mapsto> ''orders-key'', ''type'' \<mapsto> ''aes256-gcm96''],
      Raw_bool = [''derived'' \<mapsto> True, ''convergent_encryption'' \<mapsto> True, ''exportable'' \<mapsto> False]\<rparr>"

definition request :: Request where
  "request = \<lparr>Request.Storage = 0\<rparr>"

text \<open>The world after the first create-or-get of \<^verbatim>\<open>orders-key\<close>.\<close>

definition one_key_world :: "store world" where
  "one_key_world = snd (pathPolicyWrite store_backend request orders_key empty_world)"

text \<open>Requests that fail validation, and a request that supplies a name only.\<close>

definition convergent_only :: FieldData where
  "convergent_only =
     \<lparr>Raw_string = [''name'' \<mapsto> ''orders-key''],
      Raw_bool = [''convergent_encryption'' \<mapsto> True]\<rparr>"

definition bogus_type :: FieldData where
  "bogus_type =
     \<lparr>Raw_string = [''name'' \<mapsto> ''orders-key'', ''type'' \<mapsto> ''bogus''],
      Raw_bool = Map.empty\<rparr>"

definition bogus_type_convergent :: FieldData where
  "bogus_type_convergent =
     \<lparr>Raw_string = [''name'' \<mapsto> ''orders-key'', ''type'' \<mapsto> ''bogus''],
      Raw_bool = [''convergent_encryption'' \<mapsto> True]\<rparr>"

definition name_only :: FieldData where
  "name_only = \<lparr>Raw_string = [''name'' \<mapsto> ''orders-key''], Raw_bool = Map.empty\<rparr>"

text \<open>A read of \<open>name\<close> whose context, \<^verbatim>\<open>!!!\<close>, is not base64.\<close>

definition bad_context :: "string \<Rightarrow> FieldData" where
  "bad_context name =
     \<lparr>Raw_string = [''name'' \<mapsto> name, ''context'' \<mapsto> ''!!!''], Raw_bool = Map.empty\<rparr>"

section \<open>Properties of the handlers\<close>

subsection \<open>Auxiliary facts\<close>

lemma switch_keyType_None:
  "switch_keyType t = None \<longleftrightarrow>
     t \<notin> {''aes256-gcm96'', ''ecdsa-p256'', ''ed25519'', ''rsa-2048'', ''rsa-4096''}"
  by (simp add: switch_keyType_def)

lemma Get_orders_key:
  "Get_string orders_key ''name'' = ''orders-key''"
  "Get_string orders_key ''type'' = ''aes256-gcm96''"
  "Get_bool orders_key ''derived''"
  "Get_bool orders_key ''convergent_encryption''"
  "\<not> Get_bool orders_key ''exportable''"
  by (simp_all add: Get_string_def Get_bool_def orders_key_def)

lemma one_key_world_eq:
  "one_key_world =
     \<lparr>collab =
        \<lparr>policies = [\<lparr>Storage = 0, Name = ''orders-key'', Derived = True, Convergent = True,
                       Exportable = False, KeyType = KeyType_AES256_GCM96\<rparr>],
         readers = [0]\<rparr>,
      trace =
        [Ev_GetPolicyUpsert
           \<lparr>Storage = 0, Name = ''orders-key'', Derived = True, Convergent = True,
            Exportable = False, KeyType = KeyType_AES256_GCM96\<rparr> (Some 0) (Some 0) True None,
         Ev_RUnlock 0]\<rparr>"
  by (simp add: one_key_world_def pathPolicyWrite_def Let_def Get_orders_key switch_keyType_def
      call_GetPolicyUpsert_def store_backend_def store_GetPolicyUpsert_def empty_world_def
      request_def deferred_RUnlock_def call_RUnlock_def store_RUnlock_def)

lemma trace_deferred_RUnlock:
  "trace (deferred_RUnlock b lock w) =
     trace w @ (case lock of None \<Rightarrow> [] | Some l \<Rightarrow> [Ev_RUnlock l])"
  by (simp add: deferred_RUnlock_def call_RUnlock_def split: option.splits)

text \<open>
  Whatever the lock manager is, a create-or-get that passes validation and is answered
  with an existing policy (\<^verbatim>\<open>upserted = false\<close>, no error) returns \<^verbatim>\<open>nil, nil\<close>; the
  response that holds the warning is the local \<^verbatim>\<open>resp\<close>, which is not returned.
\<close>

lemma pathPolicyWrite_return_existing:
  "pathPolicyWrite_return name (Some p) False None = (None, None)"
  by (simp add: pathPolicyWrite_return_def)

lemma pathPolicyWrite_existing:
  assumes "\<not> (\<not> Get_bool d ''derived'' \<and> Get_bool d ''convergent_encryption'')"
    and "switch_keyType (Get_string d ''type'') = Some kt"
    and "lm_GetPolicyUpsert b
           \<lparr>Storage = Request.Storage req, Name = Get_string d ''name'',
            Derived = Get_bool d ''derived'', Convergent = Get_bool d ''convergent_encryption'',
            Exportable = Get_bool d ''exportable'', KeyType = kt\<rparr> (collab w) =
         ((Some p, lock, False, None), s)"
  shows "fst (pathPolicyWrite b req d w) = (None, None)"
  using assms
  by (simp add: pathPolicyWrite_def Let_def call_GetPolicyUpsert_def pathPolicyWrite_return_existing)

lemma AddWarning_orders_key:
  "AddWarning (Response None []) (''key '' @ ''orders-key'' @ '' already existed'') =
     Response None [''key orders-key already existed'']"
  by simp

subsection \<open>Create-or-get on an existing name\<close>

text \<open>
  Claim C1: a create-or-get on a name whose policy already exists, when the upsert
  succeeds, returns success with \<^verbatim>\<open>wasCreated = false\<close>, and the response the caller sees
  carries the warning that the key already existed.

  The handler is run twice on the request of \<^verbatim>\<open>orders-key\<close>. The second call is answered
  by the lock manager with the existing policy and \<^verbatim>\<open>upserted = false\<close>; the handler
  releases the lock and returns no error, and its response is \<^verbatim>\<open>nil\<close>: no warning reaches
  the caller.
\<close>

theorem pathPolicyWrite_existing_key_returns_nil_response:
  "pathPolicyWrite store_backend request orders_key one_key_world =
     ((None, None),
      \<lparr>collab = collab one_key_world,
       trace = trace one_key_world @
         [Ev_GetPolicyUpsert
            \<lparr>Storage = 0, Name = ''orders-key'', Derived = True, Convergent = True,
             Exportable = False, KeyType = KeyType_AES256_GCM96\<rparr> (Some 0) (Some 0) False None,
          Ev_RUnlock 0]\<rparr>)"
  by (simp add: one_key_world_eq pathPolicyWrite_def Let_def Get_orders_key switch_keyType_def
      call_GetPolicyUpsert_def store_backend_def store_GetPolicyUpsert_def request_def
      deferred_RUnlock_def call_RUnlock_def store_RUnlock_def store_RLock_def
      pathPolicyWrite_return_def)

subsection \<open>Validation\<close>

text \<open>
  Claim C2: every create-or-get with \<^verbatim>\<open>convergent = true\<close> and \<^verbatim>\<open>derived = false\<close> fails
  validation before any store access. The handler answers with the error response
  \<^verbatim>\<open>convergent encryption requires derivation to be enabled\<close> (and a nil Go error), whatever
  the collaborators are; the collaborators' state is the one before the call and no call
  of the lock manager or of the storage has been made.
\<close>

theorem pathPolicyWrite_convergent_requires_derivation:
  assumes "Get_bool d ''convergent_encryption''" and "\<not> Get_bool d ''derived''"
  shows "pathPolicyWrite b req d w =
           ((Some (ErrorResponse ''convergent encryption requires derivation to be enabled''), None),
            w)"
  using assms by (simp add: pathPolicyWrite_def Let_def)

text \<open>The theorem at the request \<open>convergent_only\<close>, which leaves \<^verbatim>\<open>derived\<close> out.\<close>

theorem pathPolicyWrite_convergent_requires_derivation_witness:
  "Get_bool convergent_only ''convergent_encryption'' \<and>
   \<not> Get_bool convergent_only ''derived'' \<and>
   pathPolicyWrite store_backend request convergent_only one_key_world =
     ((Some (ErrorResponse ''convergent encryption requires derivation to be enabled''), None),
      one_key_world)"
proof -
  have g: "Get_bool convergent_only ''convergent_encryption''"
    "\<not> Get_bool convergent_only ''derived''"
    by (simp_all add: Get_bool_def convergent_only_def pathKeys_Fields_def)
  from g pathPolicyWrite_convergent_requires_derivation
    [OF g, of store_backend request one_key_world]
  show ?thesis by simp
qed

text \<open>
  Claim C3, as stated: every create-or-get whose type string is not one of
  \<^verbatim>\<open>aes256-gcm96\<close>, \<^verbatim>\<open>ecdsa-p256\<close>, \<^verbatim>\<open>ed25519\<close>, \<^verbatim>\<open>rsa-2048\<close>, \<^verbatim>\<open>rsa-4096\<close> is rejected with
  an invalid-request signal whose message carries the offending type string. It fails for
  the request \<open>bogus_type_convergent\<close>, of type \<^verbatim>\<open>bogus\<close> with \<^verbatim>\<open>convergent = true\<close> and
  \<^verbatim>\<open>derived = false\<close>: the convergence check comes first, its message does not contain
  \<^verbatim>\<open>bogus\<close>, and the Go error is nil.
\<close>

theorem pathPolicyWrite_unknown_type_counterexample:
  "Get_string bogus_type_convergent ''type'' = ''bogus'' \<and>
   ''bogus'' \<notin> {''aes256-gcm96'', ''ecdsa-p256'', ''ed25519'', ''rsa-2048'', ''rsa-4096''} \<and>
   pathPolicyWrite store_backend request bogus_type_convergent empty_world =
     ((Some (ErrorResponse ''convergent encryption requires derivation to be enabled''), None),
      empty_world) \<and>
   \<not> sublist ''bogus'' ''convergent encryption requires derivation to be enabled''"
proof -
  have "\<not> sublist ''bogus'' ''convergent encryption requires derivation to be enabled''"
    by code_simp
  then show ?thesis
    by (simp add: pathPolicyWrite_def Let_def Get_string_def Get_bool_def bogus_type_convergent_def
        pathKeys_Fields_def)
qed

text \<open>
  Claim C3, amended: every create-or-get that passes the convergence check (it is not the
  case that \<^verbatim>\<open>convergent = true\<close> and \<^verbatim>\<open>derived = false\<close>) and whose type string is not one
  of the five is rejected with the error response \<^verbatim>\<open>unknown key type\<close> followed by the
  type string, together with \<^verbatim>\<open>logical.ErrInvalidRequest\<close>; the collaborators' state is
  unchanged and no collaborator has been called.
\<close>

theorem pathPolicyWrite_unknown_key_type:
  assumes "\<not> (\<not> Get_bool d ''derived'' \<and> Get_bool d ''convergent_encryption'')"
    and "Get_string d ''type'' \<notin>
           {''aes256-gcm96'', ''ecdsa-p256'', ''ed25519'', ''rsa-2048'', ''rsa-4096''}"
  shows "pathPolicyWrite b req d w =
           ((Some (ErrorResponse (''unknown key type '' @ Get_string d ''type'')),
             Some ErrInvalidRequest), w)"
proof -
  from assms(2) have "switch_keyType (Get_string d ''type'') = None"
    by (simp add: switch_keyType_None)
  with assms(1) show ?thesis
    by (simp add: pathPolicyWrite_def Let_def)
qed

text \<open>The theorem at the request \<open>bogus_type\<close>, with both flags left out.\<close>

theorem pathPolicyWrite_unknown_key_type_witness:
  "\<not> (\<not> Get_bool bogus_type ''derived'' \<and> Get_bool bogus_type ''convergent_encryption'') \<and>
   Get_string bogus_type ''type'' \<notin>
     {''aes256-gcm96'', ''ecdsa-p256'', ''ed25519'', ''rsa-2048'', ''rsa-4096''} \<and>
   pathPolicyWrite store_backend request bogus_type one_key_world =
     ((Some (ErrorResponse ''unknown key type bogus''), Some ErrInvalidRequest), one_key_world)"
proof -
  have g: "\<not> (\<not> Get_bool bogus_type ''derived'' \<and> Get_bool bogus_type ''convergent_encryption'')"
    "Get_string bogus_type ''type'' \<notin>
       {''aes256-gcm96'', ''ecdsa-p256'', ''ed25519'', ''rsa-2048'', ''rsa-4096''}"
    by (simp_all add: Get_string_def Get_bool_def bogus_type_def pathKeys_Fields_def)
  have t: "Get_string bogus_type ''type'' = ''bogus''"
    by (simp add: Get_string_def bogus_type_def)
  from g pathPolicyWrite_unknown_key_type [OF g, of store_backend request one_key_world]
  show ?thesis by (simp add: t)
qed

text \<open>
  Claim C4: the rules are checked in order. A create-or-get that has \<^verbatim>\<open>convergent = true\<close>
  with \<^verbatim>\<open>derived = false\<close> and also an unrecognised type string fails with the convergence
  error, not with the unknown-key-type error.
\<close>

theorem pathPolicyWrite_convergence_checked_first:
  assumes "Get_bool d ''convergent_encryption''" and "\<not> Get_bool d ''derived''"
    and "Get_string d ''type'' \<notin>
           {''aes256-gcm96'', ''ecdsa-p256'', ''ed25519'', ''rsa-2048'', ''rsa-4096''}"
  shows "fst (pathPolicyWrite b req d w) =
           (Some (ErrorResponse ''convergent encryption requires derivation to be enabled''), None) \<and>
         fst (pathPolicyWrite b req d w) \<noteq>
           (Some (ErrorResponse (''unknown key type '' @ Get_string d ''type'')),
            Some ErrInvalidRequest)"
  using assms(1,2) by (simp add: pathPolicyWrite_def Let_def)

theorem pathPolicyWrite_convergence_checked_first_witness:
  "Get_bool bogus_type_convergent ''convergent_encryption'' \<and>
   \<not> Get_bool bogus_type_convergent ''derived'' \<and>
   Get_string bogus_type_convergent ''type'' \<notin>
     {''aes256-gcm96'', ''ecdsa-p256'', ''ed25519'', ''rsa-2048'', ''rsa-4096''} \<and>
   fst (pathPolicyWrite store_backend request bogus_type_convergent one_key_world) =
     (Some (ErrorResponse ''convergent encryption requires derivation to be enabled''), None) \<and>
   fst (pathPolicyWrite store_backend request bogus_type_convergent one_key_world) \<noteq>
     (Some (ErrorResponse (''unknown key type '' @ Get_string bogus_type_convergent ''type'')),
      Some ErrInvalidRequest)"
proof -
  have g: "Get_bool bogus_type_convergent ''convergent_encryption''"
    "\<not> Get_bool bogus_type_convergent ''derived''"
    "Get_string bogus_type_convergent ''type'' \<notin>
       {''aes256-gcm96'', ''ecdsa-p256'', ''ed25519'', ''rsa-2048'', ''rsa-4096''}"
    by (simp_all add: Get_string_def Get_bool_def bogus_type_convergent_def pathKeys_Fields_def)
  from g pathPolicyWrite_convergence_checked_first [OF g, of store_backend request one_key_world]
  show ?thesis by blast
qed

subsection \<open>Reading\<close>

lemma lookup_missing:
  "lm_GetPolicyShared store_backend (Request.Storage request)
       (Get_string (bad_context ''missing'') ''name'') (collab one_key_world) =
     ((None, None, None), collab one_key_world)"
  by (simp add: store_backend_def store_GetPolicyShared_def Get_string_def bad_context_def
      one_key_world_eq)

lemma lookup_orders_key:
  "lm_GetPolicyShared store_backend (Request.Storage request)
       (Get_string (bad_context ''orders-key'') ''name'') (collab one_key_world) =
     ((Some 0, Some 0, None), store_RLock 0 (collab one_key_world))"
  by (simp add: store_backend_def store_GetPolicyShared_def Get_string_def bad_context_def
      one_key_world_eq)

lemma bad_context_invalid:
  "Get_string (bad_context name) ''context'' \<noteq> []"
  "snd (base64_DecodeString store_backend (Get_string (bad_context name) ''context'')) \<noteq> None"
  by (simp_all add: Get_string_def bad_context_def store_backend_def StdEncoding_DecodeString_def
      b64_group_def b64_value_def)

text \<open>
  Claim C5: a read of a name for which the lookup returns no policy and no error returns
  \<^verbatim>\<open>nil, nil\<close>: no response data and no error. The only calls made are the lookup and, if the
  lock manager handed out a lock, its release.
\<close>

theorem pathPolicyRead_unknown_name:
  assumes "lm_GetPolicyShared b (Request.Storage req) (Get_string d ''name'') (collab w) =
             ((None, lock, None), s)"
  shows "pathPolicyRead b req d w =
           ((None, None),
            deferred_RUnlock b lock
              \<lparr>collab = s,
               trace = trace w @
                 [Ev_GetPolicyShared (Request.Storage req) (Get_string d ''name'') None lock None]\<rparr>)"
  using assms by (simp add: pathPolicyRead_def call_GetPolicyShared_def pathPolicyRead_body_def)

theorem pathPolicyRead_unknown_name_witness:
  "lm_GetPolicyShared store_backend (Request.Storage request)
       (Get_string (bad_context ''missing'') ''name'') (collab one_key_world) =
     ((None, None, None), collab one_key_world) \<and>
   fst (pathPolicyRead store_backend request (bad_context ''missing'') one_key_world) = (None, None)"
  using pathPolicyRead_unknown_name [OF lookup_missing] lookup_missing by simp

text \<open>
  Claim C6, as stated: every read whose non-empty context is not valid base64 fails with
  \<^verbatim>\<open>InvalidRequest\<close>. It fails for a read of the unknown name \<^verbatim>\<open>missing\<close> with the context
  \<^verbatim>\<open>!!!\<close>: the lookup comes first, and the handler returns \<^verbatim>\<open>nil, nil\<close> before it looks at
  the context.
\<close>

theorem pathPolicyRead_malformed_context_counterexample:
  "Get_string (bad_context ''missing'') ''context'' = ''!!!'' \<and>
   snd (base64_DecodeString store_backend ''!!!'') \<noteq> None \<and>
   pathPolicyRead store_backend request (bad_context ''missing'') empty_world =
     ((None, None),
      \<lparr>collab = collab empty_world,
       trace = [Ev_GetPolicyShared 0 ''missing'' None None None]\<rparr>)"
  by (simp add: pathPolicyRead_def call_GetPolicyShared_def pathPolicyRead_body_def
      store_backend_def store_GetPolicyShared_def Get_string_def bad_context_def empty_world_def
      request_def deferred_RUnlock_def StdEncoding_DecodeString_def b64_group_def b64_value_def)

text \<open>
  Claim C6, amended: every read for which the lookup returns a policy and no error, and
  whose non-empty context the base64 decoder rejects, fails with the error response
  \<^verbatim>\<open>failed to base64-decode context\<close> and \<^verbatim>\<open>logical.ErrInvalidRequest\<close>. The calls made
  are the lookup and the release of its lock: \<^verbatim>\<open>p.Map\<close> is not called, so no derivation is
  attempted and the policy is not touched.
\<close>

theorem pathPolicyRead_malformed_context:
  assumes "lm_GetPolicyShared b (Request.Storage req) (Get_string d ''name'') (collab w) =
             ((Some p, lock, None), s)"
    and "Get_string d ''context'' \<noteq> []"
    and "snd (base64_DecodeString b (Get_string d ''context'')) \<noteq> None"
  shows "pathPolicyRead b req d w =
           ((Some (ErrorResponse ''failed to base64-decode context''), Some ErrInvalidRequest),
            deferred_RUnlock b lock
              \<lparr>collab = s,
               trace = trace w @
                 [Ev_GetPolicyShared (Request.Storage req) (Get_string d ''name'') (Some p) lock None]\<rparr>)"
proof -
  from assms(3) obtain ctx e where
    dec: "base64_DecodeString b (Get_string d ''context'') = (ctx, Some e)"
    by (cases "base64_DecodeString b (Get_string d ''context'')") auto
  have body: "pathPolicyRead_body b d (Some p) None w1 =
      ((Some (ErrorResponse ''failed to base64-decode context''), Some ErrInvalidRequest), w1)"
    for w1
    using assms(2) by (simp add: pathPolicyRead_body_def dec)
  show ?thesis
    by (simp add: pathPolicyRead_def call_GetPolicyShared_def assms(1) body)
qed

text \<open>The theorem at a read of \<^verbatim>\<open>orders-key\<close> with the context \<^verbatim>\<open>!!!\<close>.\<close>

theorem pathPolicyRead_malformed_context_witness:
  "lm_GetPolicyShared store_backend (Request.Storage request)
       (Get_string (bad_context ''orders-key'') ''name'') (collab one_key_world) =
     ((Some 0, Some 0, None), store_RLock 0 (collab one_key_world)) \<and>
   Get_string (bad_context ''orders-key'') ''context'' \<noteq> [] \<and>
   snd (base64_DecodeString store_backend (Get_string (bad_context ''orders-key'') ''context'')) \<noteq> None \<and>
   pathPolicyRead store_backend request (bad_context ''orders-key'') one_key_world =
     ((Some (ErrorResponse ''failed to base64-decode context''), Some ErrInvalidRequest),
      \<lparr>collab = collab one_key_world,
       trace = trace one_key_world @
         [Ev_GetPolicyShared 0 ''orders-key'' (Some 0) (Some 0) None, Ev_RUnlock 0]\<rparr>)"
proof -
  have "deferred_RUnlock store_backend (Some 0)
          \<lparr>collab = store_RLock 0 (collab one_key_world),
           trace = trace one_key_world @
             [Ev_GetPolicyShared (Request.Storage request)
                (Get_string (bad_context ''orders-key'') ''name'') (Some 0) (Some 0) None]\<rparr> =
        \<lparr>collab = collab one_key_world,
         trace = trace one_key_world @
           [Ev_GetPolicyShared 0 ''orders-key'' (Some 0) (Some 0) None, Ev_RUnlock 0]\<rparr>"
    by (simp add: deferred_RUnlock_def call_RUnlock_def store_backend_def store_RUnlock_def
        store_RLock_def one_key_world_eq request_def Get_string_def bad_context_def)
  with pathPolicyRead_malformed_context [OF lookup_orders_key bad_context_invalid]
    lookup_orders_key bad_context_invalid
  show ?thesis by simp
qed

subsection \<open>Listing\<close>

lemma list_one_key:
  "Storage_List store_backend (Request.Storage request) ''policy/'' (collab one_key_world) =
     (([''orders-key''], None), collab one_key_world)"
  by (simp add: store_backend_def store_List_def one_key_world_eq)

text \<open>
  Claim C7: list-names returns exactly what the storage lists under \<^verbatim>\<open>policy/\<close>, and a
  failure of the listing is returned as the error. The one call the handler makes is
  \<^verbatim>\<open>req.Storage.List("policy/")\<close>; the lock manager is not asked. The answer is a function
  of the storage's listing alone: a backend \<open>b'\<close> with the same storage and any other
  lock manager, any request fields \<open>d'\<close> and any earlier calls give the same answer on the
  same state.
\<close>

theorem pathKeysList_lists_storage:
  assumes "Storage_List b (Request.Storage req) ''policy/'' (collab w) = ((entries, err), s)"
    and "Storage_List b' = Storage_List b"
    and "collab w' = collab w"
  shows "pathKeysList b req d w =
           ((if err = None then (Some (ListResponse entries), None) else (None, err)),
            \<lparr>collab = s,
             trace = trace w @ [Ev_List (Request.Storage req) ''policy/'' entries err]\<rparr>) \<and>
         fst (pathKeysList b' req d' w') = fst (pathKeysList b req d w)"
  using assms by (simp add: pathKeysList_def call_List_def)

text \<open>
  The theorem on the store that holds \<^verbatim>\<open>orders-key\<close>, against a backend whose lock manager
  knows no policy at all.
\<close>

theorem pathKeysList_lists_storage_witness:
  "Storage_List store_backend (Request.Storage request) ''policy/'' (collab one_key_world) =
     (([''orders-key''], None), collab one_key_world) \<and>
   Storage_List (store_backend\<lparr>lm_GetPolicyShared := \<lambda>storage name s. ((None, None, None), s)\<rparr>) =
     Storage_List store_backend \<and>
   collab (one_key_world\<lparr>trace := []\<rparr>) = collab one_key_world \<and>
   pathKeysList store_backend request orders_key one_key_world =
     ((Some (ListResponse [''orders-key'']), None),
      \<lparr>collab = collab one_key_world,
       trace = trace one_key_world @
         [Ev_List (Request.Storage request) ''policy/'' [''orders-key''] None]\<rparr>) \<and>
   fst (pathKeysList (store_backend\<lparr>lm_GetPolicyShared := \<lambda>storage name s. ((None, None, None), s)\<rparr>)
          request (bad_context ''missing'') (one_key_world\<lparr>trace := []\<rparr>)) =
     fst (pathKeysList store_backend request orders_key one_key_world)"
  using pathKeysList_lists_storage [OF list_one_key,
      of "store_backend\<lparr>lm_GetPolicyShared := \<lambda>storage name s. ((None, None, None), s)\<rparr>"
        "one_key_world\<lparr>trace := []\<rparr>" orders_key "bad_context ''missing''"]
    list_one_key
  by simp

subsection \<open>Release of the shared lock\<close>

lemma pathPolicyWrite_events:
  "\<exists>evs. trace (snd (pathPolicyWrite b req d w)) = trace w @ evs \<and> lock_discipline [] evs \<and>
      released evs = acquired evs \<and> length (acquired evs) \<le> 1"
proof (cases "\<not> Get_bool d ''derived'' \<and> Get_bool d ''convergent_encryption''")
  case True
  then have "trace (snd (pathPolicyWrite b req d w)) = trace w @ []"
    by (simp add: pathPolicyWrite_def Let_def)
  then show ?thesis by (intro exI [of _ "[]"]) simp
next
  case valid: False
  show ?thesis
  proof (cases "switch_keyType (Get_string d ''type'')")
    case None
    with valid have "trace (snd (pathPolicyWrite b req d w)) = trace w @ []"
      by (simp add: pathPolicyWrite_def Let_def)
    then show ?thesis by (intro exI [of _ "[]"]) simp
  next
    case (Some kt)
    define polReq where "polReq =
      \<lparr>Storage = Request.Storage req, Name = Get_string d ''name'',
       Derived = Get_bool d ''derived'', Convergent = Get_bool d ''convergent_encryption'',
       Exportable = Get_bool d ''exportable'', KeyType = kt\<rparr>"
    obtain r s where rs: "lm_GetPolicyUpsert b polReq (collab w) = (r, s)"
      by (cases "lm_GetPolicyUpsert b polReq (collab w)")
    obtain p lock upserted err where "r = (p, lock, upserted, err)"
      by (cases r rule: prod_cases4)
    with rs have u: "lm_GetPolicyUpsert b polReq (collab w) = ((p, lock, upserted, err), s)"
      by simp
    let ?evs = "Ev_GetPolicyUpsert polReq p lock upserted err #
                  (case lock of None \<Rightarrow> [] | Some l \<Rightarrow> [Ev_RUnlock l])"
    from valid Some u have "trace (snd (pathPolicyWrite b req d w)) = trace w @ ?evs"
      by (simp add: pathPolicyWrite_def Let_def call_GetPolicyUpsert_def trace_deferred_RUnlock
          polReq_def [symmetric])
    moreover have "lock_discipline [] ?evs \<and> released ?evs = acquired ?evs \<and>
        length (acquired ?evs) \<le> 1"
      by (cases lock) simp_all
    ultimately show ?thesis by blast
  qed
qed

lemma pathPolicyRead_body_events:
  "trace (snd (pathPolicyRead_body b d p err w)) = trace w \<or>
   (\<exists>pol ctx respData e.
      trace (snd (pathPolicyRead_body b d p err w)) = trace w @ [Ev_Map pol ctx respData e])"
proof -
  have m: "\<exists>respData e.
      trace (snd (pathPolicyRead_map b pol ctx w)) = trace w @ [Ev_Map pol ctx respData e]"
    for pol ctx
    by (cases "Policy_Map b pol ctx (collab w)")
      (auto simp add: pathPolicyRead_map_def call_Map_def)
  show ?thesis
  proof (cases "err \<noteq> None \<or> p = None")
    case True
    then show ?thesis by (auto simp add: pathPolicyRead_body_def)
  next
    case False
    then obtain pol where p: "p = Some pol" and e: "err = None" by auto
    show ?thesis
    proof (cases "Get_string d ''context'' = []")
      case True
      with p e m [of pol None] show ?thesis
        by (auto simp add: pathPolicyRead_body_def)
    next
      case False
      obtain ctx e' where dec: "base64_DecodeString b (Get_string d ''context'') = (ctx, e')"
        by (cases "base64_DecodeString b (Get_string d ''context'')")
      show ?thesis
      proof (cases e')
        case None
        with False p e dec m [of pol "Some ctx"] show ?thesis
          by (auto simp add: pathPolicyRead_body_def)
      next
        case (Some a)
        with False p e dec show ?thesis
          by (simp add: pathPolicyRead_body_def)
      qed
    qed
  qed
qed

lemma pathPolicyRead_events:
  "\<exists>evs. trace (snd (pathPolicyRead b req d w)) = trace w @ evs \<and> lock_discipline [] evs \<and>
      released evs = acquired evs \<and> length (acquired evs) \<le> 1"
proof -
  obtain r w1 where
    rw: "call_GetPolicyShared b (Request.Storage req) (Get_string d ''name'') w = (r, w1)"
    by (cases "call_GetPolicyShared b (Request.Storage req) (Get_string d ''name'') w")
  obtain p lock err where "r = (p, lock, err)"
    by (cases r rule: prod_cases3)
  with rw have
    c: "call_GetPolicyShared b (Request.Storage req) (Get_string d ''name'') w = ((p, lock, err), w1)"
    by simp
  then have t1: "trace w1 =
      trace w @ [Ev_GetPolicyShared (Request.Storage req) (Get_string d ''name'') p lock err]"
    by (auto simp add: call_GetPolicyShared_def split: prod.splits)
  obtain res w2 where r: "pathPolicyRead_body b d p err w1 = (res, w2)"
    by (cases "pathPolicyRead_body b d p err w1")
  have t: "trace (snd (pathPolicyRead b req d w)) =
             trace w2 @ (case lock of None \<Rightarrow> [] | Some l \<Rightarrow> [Ev_RUnlock l])"
    by (simp add: pathPolicyRead_def c r trace_deferred_RUnlock)
  from pathPolicyRead_body_events [of b d p err w1] r
  consider "trace w2 = trace w1"
    | pol ctx respData e where "trace w2 = trace w1 @ [Ev_Map pol ctx respData e]"
    by auto
  then show ?thesis
  proof cases
    case 1
    with t t1 show ?thesis by (cases lock) simp_all
  next
    case 2
    with t t1 show ?thesis by (cases lock) simp_all
  qed
qed

lemma pathPolicyWrite_collab:
  "collab (snd (pathPolicyWrite b req d w)) =
     (if \<not> Get_bool d ''derived'' \<and> Get_bool d ''convergent_encryption'' then collab w
      else
        (case switch_keyType (Get_string d ''type'') of
           None \<Rightarrow> collab w
         | Some kt \<Rightarrow>
             (case lm_GetPolicyUpsert b
                     \<lparr>Storage = Request.Storage req, Name = Get_string d ''name'',
                      Derived = Get_bool d ''derived'',
                      Convergent = Get_bool d ''convergent_encryption'',
                      Exportable = Get_bool d ''exportable'', KeyType = kt\<rparr> (collab w) of
                ((p, lock, upserted, err), s) \<Rightarrow>
                  (case lock of None \<Rightarrow> s | Some l \<Rightarrow> lock_RUnlock b l s))))"
proof (cases "\<not> Get_bool d ''derived'' \<and> Get_bool d ''convergent_encryption''")
  case True
  then show ?thesis by (simp add: pathPolicyWrite_def Let_def)
next
  case valid: False
  show ?thesis
  proof (cases "switch_keyType (Get_string d ''type'')")
    case None
    with valid show ?thesis by (simp add: pathPolicyWrite_def Let_def)
  next
    case (Some kt)
    define polReq where "polReq =
      \<lparr>Storage = Request.Storage req, Name = Get_string d ''name'',
       Derived = Get_bool d ''derived'', Convergent = Get_bool d ''convergent_encryption'',
       Exportable = Get_bool d ''exportable'', KeyType = kt\<rparr>"
    obtain r s where rs: "lm_GetPolicyUpsert b polReq (collab w) = (r, s)"
      by (cases "lm_GetPolicyUpsert b polReq (collab w)")
    obtain p lock upserted err where "r = (p, lock, upserted, err)"
      by (cases r rule: prod_cases4)
    with rs have u: "lm_GetPolicyUpsert b polReq (collab w) = ((p, lock, upserted, err), s)"
      by simp
    from valid Some u show ?thesis
      by (cases lock)
        (auto simp add: pathPolicyWrite_def Let_def call_GetPolicyUpsert_def deferred_RUnlock_def
          call_RUnlock_def polReq_def [symmetric])
  qed
qed

lemma collab_deferred_RUnlock:
  "collab (deferred_RUnlock b lock w) =
     (case lock of None \<Rightarrow> collab w | Some l \<Rightarrow> lock_RUnlock b l (collab w))"
  by (simp add: deferred_RUnlock_def call_RUnlock_def split: option.splits)

lemma collab_pathPolicyRead_map:
  "collab (snd (pathPolicyRead_map b pol ctx w)) = snd (Policy_Map b pol ctx (collab w))"
proof -
  obtain r s where rs: "Policy_Map b pol ctx (collab w) = (r, s)"
    by (cases "Policy_Map b pol ctx (collab w)")
  obtain respData err where "r = (respData, err)" by (cases r)
  with rs show ?thesis
    by (simp add: pathPolicyRead_map_def call_Map_def)
qed

lemma collab_pathPolicyRead_body:
  "collab (snd (pathPolicyRead_body b d p err w)) =
     (if err \<noteq> None then collab w
      else
        (case p of
           None \<Rightarrow> collab w
         | Some pol \<Rightarrow>
             if Get_string d ''context'' = [] then snd (Policy_Map b pol None (collab w))
             else
               (case base64_DecodeString b (Get_string d ''context'') of
                  (ctx, e) \<Rightarrow>
                    if e \<noteq> None then collab w
                    else snd (Policy_Map b pol (Some ctx) (collab w)))))"
proof (cases "err \<noteq> None \<or> p = None")
  case True
  then show ?thesis by (auto simp add: pathPolicyRead_body_def)
next
  case False
  then obtain pol where p: "p = Some pol" and e: "err = None" by auto
  obtain ctx e' where dec: "base64_DecodeString b (Get_string d ''context'') = (ctx, e')"
    by (cases "base64_DecodeString b (Get_string d ''context'')")
  show ?thesis
    by (cases e') (simp_all add: pathPolicyRead_body_def p e dec collab_pathPolicyRead_map)
qed

lemma pathPolicyRead_collab:
  "collab (snd (pathPolicyRead b req d w)) =
     (case lm_GetPolicyShared b (Request.Storage req) (Get_string d ''name'') (collab w) of
        ((p, lock, err), s) \<Rightarrow>
          (let s' =
             (if err \<noteq> None then s
              else
                (case p of
                   None \<Rightarrow> s
                 | Some pol \<Rightarrow>
                     if Get_string d ''context'' = [] then snd (Policy_Map b pol None s)
                     else
                       (case base64_DecodeString b (Get_string d ''context'') of
                          (ctx, e) \<Rightarrow>
                            if e \<noteq> None then s
                            else snd (Policy_Map b pol (Some ctx) s))))
           in (case lock of None \<Rightarrow> s' | Some l \<Rightarrow> lock_RUnlock b l s')))"
proof -
  obtain r s where
    rs: "lm_GetPolicyShared b (Request.Storage req) (Get_string d ''name'') (collab w) = (r, s)"
    by (cases "lm_GetPolicyShared b (Request.Storage req) (Get_string d ''name'') (collab w)")
  obtain p lock err where "r = (p, lock, err)"
    by (cases r rule: prod_cases3)
  with rs have
    u: "lm_GetPolicyShared b (Request.Storage req) (Get_string d ''name'') (collab w) =
          ((p, lock, err), s)"
    by simp
  define w1 where "w1 =
    \<lparr>collab = s,
     trace = trace w @
       [Ev_GetPolicyShared (Request.Storage req) (Get_string d ''name'') p lock err]\<rparr>"
  have c: "call_GetPolicyShared b (Request.Storage req) (Get_string d ''name'') w =
      ((p, lock, err), w1)"
    by (simp add: call_GetPolicyShared_def u w1_def)
  have s1: "collab w1 = s" by (simp add: w1_def)
  obtain res w2 where r: "pathPolicyRead_body b d p err w1 = (res, w2)"
    by (cases "pathPolicyRead_body b d p err w1")
  then have w2: "w2 = snd (pathPolicyRead_body b d p err w1)" by simp
  have "collab (snd (pathPolicyRead b req d w)) =
      (case lock of
         None \<Rightarrow> collab (snd (pathPolicyRead_body b d p err w1))
       | Some l \<Rightarrow> lock_RUnlock b l (collab (snd (pathPolicyRead_body b d p err w1))))"
    unfolding w2 [symmetric]
    by (simp add: pathPolicyRead_def c r collab_deferred_RUnlock)
  then show ?thesis
    by (simp only: u collab_pathPolicyRead_body s1 Let_def prod.case)
qed

lemma readers_after_lookup:
  "readers (snd (lm_GetPolicyShared store_backend (Request.Storage request)
       (Get_string orders_key ''name'') (collab one_key_world))) = [1]"
  by (simp add: store_backend_def store_GetPolicyShared_def Get_orders_key one_key_world_eq
      store_RLock_def)

text \<open>
  Claim C8: on every exit path of the create-or-get and read handlers, a shared lock that
  was acquired is released exactly once before the handler returns, and without a lock no
  release is attempted. For every backend, request and world:

  \<^item> the calls \<open>evs\<close> that a handler adds to the trace keep the lock discipline from no
    lock held to no lock held: \<^verbatim>\<open>RUnlock\<close> is called only on a lock the lock manager
    returned to this handler, after it was returned, and the locks released are the locks
    acquired, of which there is at most one;
  \<^item> the collaborators' state the handler leaves is the state \<open>s'\<close> that its other calls
    produced (the lock manager's call, and \<^verbatim>\<open>p.Map\<close> where the read gets that far) with
    \<open>lock_RUnlock b l\<close> applied to it once when the lock manager returned the lock \<open>l\<close>,
    and \<open>s'\<close> itself when it returned none; a request that fails validation leaves the
    state as it was.
\<close>

theorem handlers_release_acquired_lock:
  "(\<exists>evs. trace (snd (pathPolicyWrite b req d w)) = trace w @ evs \<and> lock_discipline [] evs \<and>
      released evs = acquired evs \<and> length (acquired evs) \<le> 1) \<and>
   (\<exists>evs. trace (snd (pathPolicyRead b req d w)) = trace w @ evs \<and> lock_discipline [] evs \<and>
      released evs = acquired evs \<and> length (acquired evs) \<le> 1) \<and>
   collab (snd (pathPolicyWrite b req d w)) =
     (if \<not> Get_bool d ''derived'' \<and> Get_bool d ''convergent_encryption'' then collab w
      else
        (case switch_keyType (Get_string d ''type'') of
           None \<Rightarrow> collab w
         | Some kt \<Rightarrow>
             (case lm_GetPolicyUpsert b
                     \<lparr>Storage = Request.Storage req, Name = Get_string d ''name'',
                      Derived = Get_bool d ''derived'',
                      Convergent = Get_bool d ''convergent_encryption'',
                      Exportable = Get_bool d ''exportable'', KeyType = kt\<rparr> (collab w) of
                ((p, lock, upserted, err), s) \<Rightarrow>
                  (case lock of None \<Rightarrow> s | Some l \<Rightarrow> lock_RUnlock b l s)))) \<and>
   collab (snd (pathPolicyRead b req d w)) =
     (case lm_GetPolicyShared b (Request.Storage req) (Get_string d ''name'') (collab w) of
        ((p, lock, err), s) \<Rightarrow>
          (let s' =
             (if err \<noteq> None then s
              else
                (case p of
                   None \<Rightarrow> s
                 | Some pol \<Rightarrow>
                     if Get_string d ''context'' = [] then snd (Policy_Map b pol None s)
                     else
                       (case base64_DecodeString b (Get_string d ''context'') of
                          (ctx, e) \<Rightarrow>
                            if e \<noteq> None then s
                            else snd (Policy_Map b pol (Some ctx) s))))
           in (case lock of None \<Rightarrow> s' | Some l \<Rightarrow> lock_RUnlock b l s')))"
  using pathPolicyWrite_events pathPolicyRead_events
    pathPolicyWrite_collab [of b req d w] pathPolicyRead_collab [of b req d w]
  by blast

text \<open>
  The theorem on the store that holds \<^verbatim>\<open>orders-key\<close>: the lookup leaves one reader on the
  lock of the policy, and both handlers return with none.
\<close>

theorem handlers_release_acquired_lock_witness:
  "readers (snd (lm_GetPolicyShared store_backend (Request.Storage request)
       (Get_string orders_key ''name'') (collab one_key_world))) = [1] \<and>
   readers (collab (snd (pathPolicyRead store_backend request orders_key one_key_world))) = [0] \<and>
   readers (collab (snd (pathPolicyWrite store_backend request orders_key one_key_world))) = [0]"
proof -
  note h = handlers_release_acquired_lock [of store_backend request orders_key one_key_world]
  have w: "collab (snd (pathPolicyWrite store_backend request orders_key one_key_world)) =
          store_RUnlock 0 (store_RLock 0 (collab one_key_world))"
    using h [THEN conjunct2, THEN conjunct2, THEN conjunct1]
    by (simp add: Get_orders_key switch_keyType_def store_backend_def
        store_GetPolicyUpsert_def one_key_world_eq request_def)
  have r: "collab (snd (pathPolicyRead store_backend request orders_key one_key_world)) =
          store_RUnlock 0 (store_RLock 0 (collab one_key_world))"
    using h [THEN conjunct2, THEN conjunct2, THEN conjunct2]
    by (simp add: Get_orders_key store_backend_def store_GetPolicyShared_def store_Map_def
        one_key_world_eq request_def Get_string_def orders_key_def pathKeys_Fields_def Let_def
        store_RLock_def)
  have z: "readers (store_RUnlock 0 (store_RLock 0 (collab one_key_world))) = [0]"
    by (simp add: store_RUnlock_def store_RLock_def one_key_world_eq)
  from readers_after_lookup z show ?thesis
    unfolding w r by blast
qed


subsection \<open>The default key type\<close>

text \<open>
  Claim C10: a create-or-get that leaves the \<^verbatim>\<open>type\<close> field out is processed exactly as
  if \<^verbatim>\<open>type = "aes256-gcm96"\<close> had been supplied: the handler reads that type string, and
  its result and its effect on the world are those of the request with the field set.
\<close>

theorem pathPolicyWrite_type_defaults_to_aes256_gcm96:
  assumes "Raw_string d ''type'' = None"
  shows "Get_string d ''type'' = ''aes256-gcm96'' \<and>
         pathPolicyWrite b req d w =
           pathPolicyWrite b req
             (d\<lparr>Raw_string := (Raw_string d)(''type'' \<mapsto> ''aes256-gcm96'')\<rparr>) w"
proof -
  let ?d = "d\<lparr>Raw_string := (Raw_string d)(''type'' \<mapsto> ''aes256-gcm96'')\<rparr>"
  have t: "Get_string d ''type'' = ''aes256-gcm96''"
    using assms by (simp add: Get_string_def pathKeys_Fields_def)
  have t': "Get_string ?d ''type'' = ''aes256-gcm96''"
    by (simp add: Get_string_def)
  have n: "Get_string ?d ''name'' = Get_string d ''name''"
    by (simp add: Get_string_def)
  have b: "Get_bool ?d k = Get_bool d k" for k
    by (simp add: Get_bool_def)
  show ?thesis
    by (simp add: pathPolicyWrite_def t t' n b)
qed

text \<open>
  The theorem at the request \<open>name_only\<close> on the empty store: the policy is created with
  the key type \<open>KeyType_AES256_GCM96\<close>.
\<close>

theorem pathPolicyWrite_type_defaults_to_aes256_gcm96_witness:
  "Raw_string name_only ''type'' = None \<and>
   Get_string name_only ''type'' = ''aes256-gcm96'' \<and>
   pathPolicyWrite store_backend request name_only empty_world =
     pathPolicyWrite store_backend request
       (name_only\<lparr>Raw_string := (Raw_string name_only)(''type'' \<mapsto> ''aes256-gcm96'')\<rparr>)
       empty_world \<and>
   map KeyType (policies (collab (snd (pathPolicyWrite store_backend request name_only empty_world)))) =
     [KeyType_AES256_GCM96]"
proof -
  have g: "Raw_string name_only ''type'' = None"
    by (simp add: name_only_def)
  have k: "map KeyType
      (policies (collab (snd (pathPolicyWrite store_backend request name_only empty_world)))) =
     [KeyType_AES256_GCM96]"
    by (simp add: pathPolicyWrite_def Let_def Get_string_def Get_bool_def name_only_def
        pathKeys_Fields_def switch_keyType_def call_GetPolicyUpsert_def store_backend_def
        store_GetPolicyUpsert_def empty_world_def request_def deferred_RUnlock_def
        call_RUnlock_def store_RUnlock_def)
  from g k pathPolicyWrite_type_defaults_to_aes256_gcm96 [OF g, of store_backend request empty_world]
  show ?thesis by simp
qed

end
